theory Spec2Isabelle
  imports Main
begin

section \<open>JavaScript values\<close>

text \<open>
  The values \<open>JSON.parse\<close> can return. A number is carried by its \<open>ToString\<close> rendering
  (for example \<open>''0''\<close>, \<open>''5''\<close>, \<open>''0.5''\<close>), which determines both its truthiness and its
  text in a string concatenation; \<open>+0\<close> and \<open>-0\<close> both render as \<open>''0''\<close>. An object is its
  list of own properties. A \<open>json option\<close> is a JavaScript value that may be
  \<open>undefined\<close> (\<open>None\<close>). Characters stand for UTF-16 code units below 256.
\<close>

datatype json =
    JNull
  | JBool bool
  | JNum string
  | JStr string
  | JArr "json list"
  | JObj "(string \<times> json) list"

text \<open>JavaScript truthiness: \<open>null\<close>, \<open>false\<close>, \<open>0\<close>, \<open>''\<close> and \<open>undefined\<close> are falsy.\<close>

fun truthy :: "json \<Rightarrow> bool" where
  "truthy JNull = False"
| "truthy (JBool b) = b"
| "truthy (JNum n) = (n \<noteq> ''0'')"
| "truthy (JStr s) = (s \<noteq> [])"
| "truthy (JArr xs) = True"
| "truthy (JObj kvs) = True"

definition truthy_val :: "json option \<Rightarrow> bool" where
  "truthy_val v = (case v of None \<Rightarrow> False | Some j \<Rightarrow> truthy j)"

text \<open>
  Property read \<open>v.k\<close> on a value that is neither \<open>null\<close> nor \<open>undefined\<close>, for the keys
  the program reads (\<open>type\<close>, \<open>delta\<close>, \<open>text\<close>, \<open>completion\<close>, \<open>uuid\<close>): an object gives
  its property, every other value gives \<open>undefined\<close>. Reading a property of \<open>null\<close> throws
  a TypeError; each caller below handles that case before calling \<open>field_of\<close>.
\<close>

fun field_of :: "json \<Rightarrow> string \<Rightarrow> json option" where
  "field_of (JObj kvs) k = map_of kvs k"
| "field_of j k = None"

text \<open>Optional chaining \<open>v?.k\<close>: \<open>undefined\<close> when \<open>v\<close> is \<open>null\<close> or \<open>undefined\<close>.\<close>

definition opt_chain :: "json option \<Rightarrow> string \<Rightarrow> json option" where
  "opt_chain v k = (case v of None \<Rightarrow> None | Some JNull \<Rightarrow> None | Some j \<Rightarrow> field_of j k)"

fun join_with :: "string \<Rightarrow> string list \<Rightarrow> string" where
  "join_with sep [] = []"
| "join_with sep [x] = x"
| "join_with sep (x # y # ys) = x @ sep @ join_with sep (y # ys)"

text \<open>
  \<open>ToString\<close>, as used by template literals and by \<open>+=\<close> on a string; \<open>None\<close> when it
  throws a TypeError. An object converts through its \<open>toString\<close> property: one parsed
  from JSON with an own \<open>toString\<close> has a value there that cannot be called, and the
  inherited \<open>valueOf\<close> returns the object, so the conversion throws; without it the
  inherited \<open>toString\<close> gives \<open>[object Object]\<close>. An array joins the conversions of its
  elements, \<open>null\<close> counting as empty.
\<close>

fun to_string :: "json \<Rightarrow> string option" where
  "to_string JNull = Some ''null''"
| "to_string (JBool b) = Some (if b then ''true'' else ''false'')"
| "to_string (JNum n) = Some n"
| "to_string (JStr s) = Some s"
| "to_string (JArr xs) =
     map_option (join_with '','')
       (those (map (\<lambda>x. if x = JNull then Some [] else to_string x) xs))"
| "to_string (JObj kvs) =
     (if map_of kvs ''toString'' = None then Some ''[object Object]'' else None)"

definition val_string :: "json option \<Rightarrow> string option" where
  "val_string v = (case v of None \<Rightarrow> Some ''undefined'' | Some j \<Rightarrow> to_string j)"

section \<open>Strings\<close>

text \<open>The white space \<open>String.prototype.trim\<close> removes, among the code units below 256.\<close>

definition is_ws :: "char \<Rightarrow> bool" where
  "is_ws c = (c \<in> set [CHR 0x09, CHR 0x0A, CHR 0x0B, CHR 0x0C, CHR 0x0D, CHR 0x20, CHR 0xA0])"

definition trim :: "string \<Rightarrow> string" where
  "trim s = rev (dropWhile is_ws (rev (dropWhile is_ws s)))"

definition starts_with :: "string \<Rightarrow> string \<Rightarrow> bool" where
  "starts_with p s = (take (length p) s = p)"

text \<open>\<open>s.split('\n')\<close>: never empty; \<open>''.split('\n')\<close> is \<open>['']\<close>.\<close>

fun split_nl :: "string \<Rightarrow> string list" where
  "split_nl [] = [[]]"
| "split_nl (c # cs) =
     (if c = CHR 0x0A then [] # split_nl cs
      else (case split_nl cs of [] \<Rightarrow> [[c]] | l # ls \<Rightarrow> (c # l) # ls))"

text \<open>Decimal rendering of a status code, as in the template literal \<open>HTTP ${res.statusCode}\<close>.\<close>

fun dec :: "nat \<Rightarrow> string" where
  "dec n = (if n < 10 then [''0123456789'' ! n] else dec (n div 10) @ [''0123456789'' ! (n mod 10)])"

section \<open>Data model\<close>

datatype role = User | Assistant

record message =
  role :: role
  content :: string

text \<open>The private fields of \<open>ClaudeChatPanel\<close> that the message handlers read and write.\<close>

record panel =
  messages :: "message list"
  orgId :: "json option"
  conversationId :: "json option"

text \<open>What \<open>webview.postMessage\<close> sends to the display.\<close>

datatype display =
    CookieStatus bool
  | UserMessage string
  | Thinking
  | Status string
  | StartAssistantMessage
  | Chunk "json option"
  | Done
  | Error string
  | ClearChat

text \<open>The three callbacks \<open>sendMessage\<close> is given, as the calls it makes, in order.\<close>

datatype callback = OnChunk "json option" | OnDone | OnError string

text \<open>
  The requests issued, by endpoint: the organization list, conversation creation under
  an organization, and the completion under an organization and a conversation with its
  prompt.
\<close>

datatype net_call =
    GetOrganizations
  | CreateConversation string
  | Completion string string string

text \<open>
  What the remote side answers. A non-streaming exchange either fails at the request
  (\<open>req.on('error')\<close>) or delivers a status and a body that is read to its end. A
  streaming exchange fails at the request, or delivers a status and a sequence of
  chunks that finishes with \<open>end\<close> or with \<open>error\<close>.
\<close>

datatype http_result = NetError string | HttpResponse nat string

datatype stream_end = StreamEnd | StreamFail string

datatype stream_result = ConnError string | StreamResponse nat "string list" stream_end

record network =
  org_response :: http_result
  conv_response :: http_result
  completion :: stream_result

section \<open>The secret store (\<open>ClaudeApiClient\<close>)\<close>

definition setCookie :: "string \<Rightarrow> string option \<Rightarrow> string option" where
  "setCookie cookie store = Some (trim cookie)"

definition clearCookie :: "string option \<Rightarrow> string option" where
  "clearCookie store = None"

definition getCookie :: "string option \<Rightarrow> string option" where
  "getCookie store = store"

text \<open>\<open>!!c\<close>: \<open>undefined\<close> and the empty string are falsy.\<close>

definition hasCookie :: "string option \<Rightarrow> bool" where
  "hasCookie store = (case getCookie store of None \<Rightarrow> False | Some c \<Rightarrow> c \<noteq> [])"

section \<open>Decoding the event stream (\<open>ClaudeApiClient.sendMessage\<close>)\<close>

text \<open>
  The body of the \<open>try\<close> block for one payload. \<open>jp\<close> is the host's \<open>JSON.parse\<close>
  (\<open>None\<close> when it throws). A TypeError from reading a property of \<open>null\<close> is caught by
  the same \<open>catch\<close> as a parse error. \<open>nested_delta\<close> is the condition of the first
  \<open>if\<close>: \<open>parsed.type === 'content_block_delta' && parsed.delta?.type === 'text_delta'\<close>.
\<close>

definition nested_delta :: "json \<Rightarrow> bool" where
  "nested_delta parsed =
     (field_of parsed ''type'' = Some (JStr ''content_block_delta'')
      \<and> opt_chain (field_of parsed ''delta'') ''type'' = Some (JStr ''text_delta''))"

definition on_payload :: "(string \<Rightarrow> json option) \<Rightarrow> string \<Rightarrow> callback list" where
  "on_payload jp data =
     (case jp data of
        None \<Rightarrow> []
      | Some parsed \<Rightarrow>
          if parsed = JNull then []
          else if nested_delta parsed
          then (case field_of parsed ''delta'' of
                  None \<Rightarrow> []
                | Some delta \<Rightarrow> [OnChunk (field_of delta ''text'')])
          else if truthy_val (field_of parsed ''completion'')
          then [OnChunk (field_of parsed ''completion'')]
          else [])"

text \<open>The \<open>for\<close> loop over the complete lines of one chunk; \<open>return\<close> ends the loop.\<close>

fun process_lines :: "(string \<Rightarrow> json option) \<Rightarrow> string list \<Rightarrow> callback list" where
  "process_lines jp [] = []"
| "process_lines jp (line # rest) =
     (if starts_with ''data: '' line then
        (let data = trim (drop 6 line) in
         if data = ''[DONE]'' then [OnDone]
         else on_payload jp data @ process_lines jp rest)
      else process_lines jp rest)"

text \<open>
  The \<open>data\<close> handler: the new buffer and the callbacks made. \<open>lines.pop() || ''\<close>
  takes the last fragment.
\<close>

definition on_data :: "(string \<Rightarrow> json option) \<Rightarrow> string \<Rightarrow> string \<Rightarrow> string \<times> callback list" where
  "on_data jp buffer chunk =
     (let lines = split_nl (buffer @ chunk) in
      ((if lines = [] then [] else last lines), process_lines jp (butlast lines)))"

text \<open>The \<open>data\<close> handler run on each chunk in arrival order.\<close>

fun feed :: "(string \<Rightarrow> json option) \<Rightarrow> string \<Rightarrow> string list \<Rightarrow> callback list" where
  "feed jp buffer [] = []"
| "feed jp buffer (chunk # chunks) =
     (case on_data jp buffer chunk of (buffer', cbs) \<Rightarrow> cbs @ feed jp buffer' chunks)"

text \<open>
  The response callback. With a status of 400 or more only \<open>data\<close> and \<open>end\<close> handlers are
  registered, so a failing error body calls nothing. Otherwise \<open>end\<close> calls \<open>onDone\<close> and
  \<open>error\<close> calls \<open>onError\<close>.
\<close>

definition stream_callbacks :: "(string \<Rightarrow> json option) \<Rightarrow> stream_result \<Rightarrow> callback list" where
  "stream_callbacks jp outcome =
     (case outcome of
        ConnError e \<Rightarrow> [OnError e]
      | StreamResponse status chunks fin \<Rightarrow>
          if status \<ge> 400 then
            (case fin of
               StreamEnd \<Rightarrow> [OnError (''HTTP '' @ dec status @ '': '' @ concat chunks)]
             | StreamFail e \<Rightarrow> [])
          else
            feed jp [] chunks @ (case fin of StreamEnd \<Rightarrow> [OnDone] | StreamFail e \<Rightarrow> [OnError e]))"

text \<open>
  \<open>sendMessage\<close>: throws (\<open>Inl\<close>) without a cookie, on an empty message list (reading
  \<open>content\<close> of \<open>undefined\<close>), and when an identifier in the path's template literal
  does not convert to text; otherwise issues the completion request.
\<close>

definition sendMessage ::
  "(string \<Rightarrow> json option) \<Rightarrow> string option \<Rightarrow> json option \<Rightarrow> json option \<Rightarrow> message list
     \<Rightarrow> stream_result \<Rightarrow> (string + callback list) \<times> net_call list" where
  "sendMessage jp store org conv msgs outcome =
     (if \<not> hasCookie store then (Inl ''No session cookie set.'', [])
      else if msgs = [] then (Inl ''Cannot read properties of undefined (reading 'content')'', [])
      else
        (case val_string org of
           None \<Rightarrow> (Inl ''Cannot convert object to primitive value'', [])
         | Some org_text \<Rightarrow>
             (case val_string conv of
                None \<Rightarrow> (Inl ''Cannot convert object to primitive value'', [])
              | Some conv_text \<Rightarrow>
                  (Inr (stream_callbacks jp outcome),
                   [Completion org_text conv_text (content (last msgs))]))))"

section \<open>Bootstrap requests\<close>

text \<open>
  \<open>ClaudeApiClient.getOrganizationId\<close>. \<open>org_answer\<close> is what its promise settles to
  once the request is out; the status code is not looked at.
\<close>

definition org_answer :: "(string \<Rightarrow> json option) \<Rightarrow> http_result \<Rightarrow> string + json option" where
  "org_answer jp resp =
     (case resp of
        NetError e \<Rightarrow> Inl e
      | HttpResponse status data \<Rightarrow>
          (case jp data of
             None \<Rightarrow> Inl (''Failed to parse org response: '' @ data)
           | Some (JArr (org # orgs)) \<Rightarrow>
               if org = JNull then Inl (''Failed to parse org response: '' @ data)
               else Inr (field_of org ''uuid'')
           | Some other \<Rightarrow> Inl (''Could not get organization. Response: '' @ data)))"

definition getOrganizationId ::
  "(string \<Rightarrow> json option) \<Rightarrow> string option \<Rightarrow> http_result
     \<Rightarrow> (string + json option) \<times> net_call list" where
  "getOrganizationId jp store resp =
     (if \<not> hasCookie store then (Inl ''No session cookie set.'', [])
      else (org_answer jp resp, [GetOrganizations]))"

text \<open>
  \<open>ClaudeChatPanel._createConversation\<close>. \<open>conv_answer\<close> is what its promise settles to
  once the request is out. The path is a template literal over \<open>this._orgId\<close>, evaluated
  in the promise's executor: when the conversion throws, the promise is rejected and no
  request is issued.
\<close>

definition conv_answer :: "(string \<Rightarrow> json option) \<Rightarrow> http_result \<Rightarrow> string + json option" where
  "conv_answer jp resp =
     (case resp of
        NetError e \<Rightarrow> Inl e
      | HttpResponse status data \<Rightarrow>
          (case jp data of
             None \<Rightarrow> Inl (''Parse error: '' @ data)
           | Some parsed \<Rightarrow>
               if parsed = JNull then Inl (''Parse error: '' @ data)
               else if truthy_val (field_of parsed ''uuid'') then Inr (field_of parsed ''uuid'')
               else Inl (''No UUID in response: '' @ data)))"

definition createConversation ::
  "(string \<Rightarrow> json option) \<Rightarrow> string option \<Rightarrow> json option \<Rightarrow> http_result
     \<Rightarrow> (string + json option) \<times> net_call list" where
  "createConversation jp store org resp =
     (if \<not> hasCookie store then (Inl ''Missing cookie or org ID'', [])
      else if \<not> truthy_val org then (Inl ''Missing cookie or org ID'', [])
      else
        (case val_string org of
           None \<Rightarrow> (Inl ''Cannot convert object to primitive value'', [])
         | Some org_text \<Rightarrow> (conv_answer jp resp, [CreateConversation org_text])))"

section \<open>The chat panel (\<open>ClaudeChatPanel\<close>)\<close>


definition checkCookieStatus :: "string option \<Rightarrow> display list" where
  "checkCookieStatus store = [CookieStatus (hasCookie store)]"

text \<open>
  The three closures passed to \<open>sendMessage\<close>, run on its calls in order: the message
  list, the accumulated \<open>fullResponse\<close>, and the events posted. \<open>onChunk\<close> is called
  inside the decoder's \<open>try\<close>: when \<open>fullResponse += chunk\<close> throws, nothing is appended
  or posted and the decoder goes on.
\<close>

fun deliver :: "callback list \<Rightarrow> message list \<Rightarrow> string \<Rightarrow> message list \<times> display list" where
  "deliver [] msgs full = (msgs, [])"
| "deliver (OnChunk v # cbs) msgs full =
     (case val_string v of
        None \<Rightarrow> deliver cbs msgs full
      | Some t \<Rightarrow> (case deliver cbs msgs (full @ t) of (m, d) \<Rightarrow> (m, Chunk v # d)))"
| "deliver (OnDone # cbs) msgs full =
     (case deliver cbs (msgs @ [\<lparr>role = Assistant, content = full\<rparr>]) full of
        (m, d) \<Rightarrow> (m, Done # d))"
| "deliver (OnError e # cbs) msgs full =
     (case deliver cbs msgs full of (m, d) \<Rightarrow> (m, Error (''Error: '' @ e) # d))"

text \<open>\<open>if (!this._orgId) { ... }\<close>\<close>

definition ensure_org ::
  "(string \<Rightarrow> json option) \<Rightarrow> string option \<Rightarrow> network \<Rightarrow> panel
     \<Rightarrow> (string + panel) \<times> display list \<times> net_call list" where
  "ensure_org jp store net s =
     (if \<not> truthy_val (orgId s) then
        (case getOrganizationId jp store (org_response net) of
           (Inl e, calls) \<Rightarrow> (Inl e, [Status ''Getting organization...''], calls)
         | (Inr v, calls) \<Rightarrow> (Inr (s\<lparr>orgId := v\<rparr>), [Status ''Getting organization...''], calls))
      else (Inr s, [], []))"

text \<open>\<open>if (!this._conversationId) { ... }\<close>\<close>

definition ensure_conversation ::
  "(string \<Rightarrow> json option) \<Rightarrow> string option \<Rightarrow> network \<Rightarrow> panel
     \<Rightarrow> (string + panel) \<times> display list \<times> net_call list" where
  "ensure_conversation jp store net s =
     (if \<not> truthy_val (conversationId s) then
        (case createConversation jp store (orgId s) (conv_response net) of
           (Inl e, calls) \<Rightarrow> (Inl e, [Status ''Starting conversation...''], calls)
         | (Inr v, calls) \<Rightarrow>
             (Inr (s\<lparr>conversationId := v\<rparr>), [Status ''Starting conversation...''], calls))
      else (Inr s, [], []))"

text \<open>
  \<open>_handleUserMessage\<close>, with the callbacks of the streaming exchange run to the end of
  the stream: the panel afterwards, the events posted and the requests issued, in order.
  The secret store is not written, and is read as it stands when the message arrives.
  This is the prompt with no other handler run in between; \<open>prompt_alone\<close> below
  derives it from the model of interleaving handlers.
\<close>

definition handleUserMessage ::
  "(string \<Rightarrow> json option) \<Rightarrow> string option \<Rightarrow> network \<Rightarrow> string \<Rightarrow> panel
     \<Rightarrow> panel \<times> display list \<times> net_call list" where
  \<open>handleUserMessage jp store net text s =
     (if trim text = [] then (s, [], [])
      else if \<not> hasCookie store then
        (s, [Error ''No session cookie set. Click "Set Cookie" to configure.''], [])
      else
        (let s1 = s\<lparr>messages := messages s @ [\<lparr>role = User, content = text\<rparr>]\<rparr>;
             d1 = [UserMessage text, Thinking]
         in case ensure_org jp store net s1 of
              (Inl e, d2, c2) \<Rightarrow> (s1, d1 @ d2 @ [Error (''Error: '' @ e)], c2)
            | (Inr s2, d2, c2) \<Rightarrow>
                (case ensure_conversation jp store net s2 of
                   (Inl e, d3, c3) \<Rightarrow> (s2, d1 @ d2 @ d3 @ [Error (''Error: '' @ e)], c2 @ c3)
                 | (Inr s3, d3, c3) \<Rightarrow>
                     (case sendMessage jp store (orgId s3) (conversationId s3) (messages s3)
                             (completion net) of
                        (Inl e, c4) \<Rightarrow>
                          (s3, d1 @ d2 @ d3 @ [StartAssistantMessage, Error (''Error: '' @ e)],
                           c2 @ c3 @ c4)
                      | (Inr cbs, c4) \<Rightarrow>
                          (case deliver cbs (messages s3) [] of
                             (m, d5) \<Rightarrow>
                               (s3\<lparr>messages := m\<rparr>,
                                d1 @ d2 @ d3 @ [StartAssistantMessage] @ d5,
                                c2 @ c3 @ c4))))))\<close>

text \<open>The parts of an invocation's outcome.\<close>

definition panel_after :: "panel \<times> display list \<times> net_call list \<Rightarrow> panel" where
  "panel_after r = fst r"

definition events :: "panel \<times> display list \<times> net_call list \<Rightarrow> display list" where
  "events r = fst (snd r)"


text \<open>The events that end an invocation.\<close>

fun is_terminal :: "display \<Rightarrow> bool" where
  "is_terminal Done = True"
| "is_terminal (Error t) = True"
| "is_terminal ev = False"

section \<open>Handlers that interleave\<close>

text \<open>
  The panel's listener takes each message of the webview as it arrives, and an
  \<open>async\<close> handler gives way at every \<open>await\<close>: a second message, or the answer another
  handler waits for, can be handled while a prompt is suspended. This section models
  that. A handler runs from one \<open>await\<close> to the next in one step; what it waits for
  arrives as an input of the step that resumes it.

  A webview message is \<open>sendMessage\<close> with its text, \<open>newConversation\<close> or \<open>setCookie\<close>.
  An input is the value a pending operation delivers: the cookie \<open>secrets.get\<close> read,
  the outcome of a non-streaming exchange, \<open>error\<close> on the request, the status of a
  response, \<open>data\<close>, \<open>end\<close> and \<open>error\<close> on a response, and the end of the extension's
  \<open>setCookie\<close> command.
\<close>

datatype webview_message = SendMessage string | NewConversation | SetCookie

datatype input =
    Cookie "string option"
  | Answer http_result
  | RequestFailed string
  | Head nat
  | Data string
  | End
  | Failure string
  | CommandDone
  | CommandFailed

text \<open>
  Where a handler is suspended, with the locals it still needs.
  \<open>AwaitHasCookie\<close>: \<open>_handleUserMessage\<close> at \<open>await hasCookie()\<close>.
  \<open>AwaitOrgCookie\<close>, \<open>AwaitOrgResponse\<close>: inside \<open>getOrganizationId\<close>, at its
  \<open>getCookie\<close> and at its request. \<open>AwaitConvCookie\<close>, \<open>AwaitConvResponse\<close>: the same
  inside \<open>_createConversation\<close>. \<open>AwaitSendCookie\<close>: inside \<open>sendMessage\<close> at its
  \<open>getCookie\<close>, holding the arguments it was called with: the two identifiers and the
  message array (a reference). \<open>AwaitResponse\<close>: the completion request is out.
  \<open>ReadingBody\<close>: the response handlers are registered, with \<open>fullResponse\<close> and
  \<open>buffer\<close>; \<open>ReadingErrorBody\<close>: the branch for a status of 400 or more, with the
  status and \<open>errData\<close>. \<open>AwaitCommand\<close>, \<open>AwaitStatusCookie\<close>: the \<open>setCookie\<close> message
  at \<open>executeCommand\<close>, and \<open>_checkCookieStatus\<close> at \<open>hasCookie\<close>.
\<close>

datatype task =
    AwaitHasCookie string
  | AwaitOrgCookie
  | AwaitOrgResponse
  | AwaitConvCookie
  | AwaitConvResponse
  | AwaitSendCookie "json option" "json option" nat
  | AwaitResponse
  | ReadingBody string string
  | ReadingErrorBody nat string
  | AwaitCommand
  | AwaitStatusCookie
  | Finished

text \<open>An event is a message of the webview, or an input resuming the handler of that number.\<close>

datatype event = Message webview_message | Resume nat input

text \<open>
  The panel with its handlers in flight. \<open>this._messages\<close> is a reference to an array:
  \<open>_startNewConversation\<close> assigns a new array, while a suspended \<open>sendMessage\<close> keeps
  the one it was given. \<open>arrays\<close> holds every array by its reference, \<open>allocated\<close> is the
  next unused reference. \<open>shown\<close> and \<open>sent\<close> are the events posted and the requests
  issued so far.
\<close>

record client =
  arrays :: "nat \<Rightarrow> message list"
  allocated :: nat
  this_messages :: nat
  this_orgId :: "json option"
  this_conversationId :: "json option"
  tasks :: "task list"
  shown :: "display list"
  sent :: "net_call list"

text \<open>
  \<open>history\<close> is the array \<open>this._messages\<close> points to; \<open>push\<close> is
  \<open>this._messages.push\<close>; \<open>post\<close> is \<open>postMessage\<close>; \<open>issue\<close> sends a request; \<open>spawn\<close>
  adds a handler and \<open>suspend\<close> records where one waits; \<open>catch_error\<close> is the \<open>catch\<close>
  block of \<open>_handleUserMessage\<close>. \<open>start_send\<close>, \<open>after_org\<close> and \<open>after_auth\<close> are
  the stretches of \<open>_handleUserMessage\<close> from \<open>let fullResponse = ''\<close>, from
  \<open>if (!this._conversationId)\<close> and from \<open>this._messages.push\<close> to the next \<open>await\<close>.
\<close>

definition history :: "client \<Rightarrow> message list" where
  "history c = arrays c (this_messages c)"

definition push :: "message \<Rightarrow> client \<Rightarrow> client" where
  "push msg c = c\<lparr>arrays := (arrays c)(this_messages c := history c @ [msg])\<rparr>"

definition post :: "display list \<Rightarrow> client \<Rightarrow> client" where
  "post evs c = c\<lparr>shown := shown c @ evs\<rparr>"

definition issue :: "net_call \<Rightarrow> client \<Rightarrow> client" where
  "issue r c = c\<lparr>sent := sent c @ [r]\<rparr>"

definition spawn :: "task \<Rightarrow> client \<Rightarrow> client" where
  "spawn t c = c\<lparr>tasks := tasks c @ [t]\<rparr>"

definition suspend :: "nat \<Rightarrow> task \<Rightarrow> client \<Rightarrow> client" where
  "suspend i t c = c\<lparr>tasks := (tasks c)[i := t]\<rparr>"

definition catch_error :: "nat \<Rightarrow> string \<Rightarrow> client \<Rightarrow> client" where
  "catch_error i e c = suspend i Finished (post [Error (''Error: '' @ e)] c)"

definition start_send :: "nat \<Rightarrow> client \<Rightarrow> client" where
  "start_send i c =
     suspend i (AwaitSendCookie (this_orgId c) (this_conversationId c) (this_messages c))
       (post [StartAssistantMessage] c)"

definition after_org :: "nat \<Rightarrow> client \<Rightarrow> client" where
  "after_org i c =
     (if \<not> truthy_val (this_conversationId c) then
        suspend i AwaitConvCookie (post [Status ''Starting conversation...''] c)
      else start_send i c)"

definition after_auth :: "nat \<Rightarrow> string \<Rightarrow> client \<Rightarrow> client" where
  "after_auth i text c =
     (let c1 = post [UserMessage text, Thinking] (push \<lparr>role = User, content = text\<rparr> c)
      in if \<not> truthy_val (this_orgId c1) then
           suspend i AwaitOrgCookie (post [Status ''Getting organization...''] c1)
         else after_org i c1)"

text \<open>
  One call of a closure passed to \<open>sendMessage\<close>, on the panel as it is at that moment
  and the \<open>fullResponse\<close> of the handler.
\<close>

fun call :: "callback \<Rightarrow> client \<times> string \<Rightarrow> client \<times> string" where
  "call (OnChunk v) (c, full) =
     (case val_string v of None \<Rightarrow> (c, full) | Some t \<Rightarrow> (post [Chunk v] c, full @ t))"
| "call OnDone (c, full) = (post [Done] (push \<lparr>role = Assistant, content = full\<rparr> c), full)"
| "call (OnError e) (c, full) = (post [Error (''Error: '' @ e)] c, full)"

text \<open>
  A suspended handler resumed with an input, up to its next \<open>await\<close> or its end;
  \<open>None\<close> when the handler does not wait for that input.
\<close>

definition resume :: "(string \<Rightarrow> json option) \<Rightarrow> nat \<Rightarrow> task \<Rightarrow> input \<Rightarrow> client \<Rightarrow> client option" where
  \<open>resume jp i t inp c =
     (case t of
        AwaitHasCookie text \<Rightarrow>
          (case inp of
             Cookie ck \<Rightarrow>
               Some (if \<not> hasCookie ck then
                       suspend i Finished
                         (post [Error ''No session cookie set. Click "Set Cookie" to configure.''] c)
                     else after_auth i text c)
           | _ \<Rightarrow> None)
      | AwaitOrgCookie \<Rightarrow>
          (case inp of
             Cookie ck \<Rightarrow>
               Some (if \<not> hasCookie ck then catch_error i ''No session cookie set.'' c
                     else suspend i AwaitOrgResponse (issue GetOrganizations c))
           | _ \<Rightarrow> None)
      | AwaitOrgResponse \<Rightarrow>
          (case inp of
             Answer r \<Rightarrow>
               Some (case org_answer jp r of
                       Inl e \<Rightarrow> catch_error i e c
                     | Inr v \<Rightarrow> after_org i (c\<lparr>this_orgId := v\<rparr>))
           | _ \<Rightarrow> None)
      | AwaitConvCookie \<Rightarrow>
          (case inp of
             Cookie ck \<Rightarrow>
               Some (if \<not> hasCookie ck then catch_error i ''Missing cookie or org ID'' c
                     else if \<not> truthy_val (this_orgId c) then
                       catch_error i ''Missing cookie or org ID'' c
                     else
                       (case val_string (this_orgId c) of
                          None \<Rightarrow> catch_error i ''Cannot convert object to primitive value'' c
                        | Some org_text \<Rightarrow>
                            suspend i AwaitConvResponse (issue (CreateConversation org_text) c)))
           | _ \<Rightarrow> None)
      | AwaitConvResponse \<Rightarrow>
          (case inp of
             Answer r \<Rightarrow>
               Some (case conv_answer jp r of
                       Inl e \<Rightarrow> catch_error i e c
                     | Inr v \<Rightarrow> start_send i (c\<lparr>this_conversationId := v\<rparr>))
           | _ \<Rightarrow> None)
      | AwaitSendCookie org conv ref \<Rightarrow>
          (case inp of
             Cookie ck \<Rightarrow>
               Some (if \<not> hasCookie ck then catch_error i ''No session cookie set.'' c
                     else if arrays c ref = [] then
                       catch_error i ''Cannot read properties of undefined (reading 'content')'' c
                     else
                       (case val_string org of
                          None \<Rightarrow> catch_error i ''Cannot convert object to primitive value'' c
                        | Some org_text \<Rightarrow>
                            (case val_string conv of
                               None \<Rightarrow>
                                 catch_error i ''Cannot convert object to primitive value'' c
                             | Some conv_text \<Rightarrow>
                                 suspend i AwaitResponse
                                   (issue (Completion org_text conv_text
                                             (content (last (arrays c ref)))) c))))
           | _ \<Rightarrow> None)
      | AwaitResponse \<Rightarrow>
          (case inp of
             RequestFailed e \<Rightarrow> Some (suspend i Finished (fst (call (OnError e) (c, []))))
           | Head status \<Rightarrow>
               Some (suspend i
                       (if status \<ge> 400 then ReadingErrorBody status [] else ReadingBody [] []) c)
           | _ \<Rightarrow> None)
      | ReadingBody full buffer \<Rightarrow>
          (case inp of
             Data chunk \<Rightarrow>
               Some (case on_data jp buffer chunk of
                       (buffer', cbs) \<Rightarrow>
                         (case fold call cbs (c, full) of
                            (c', full') \<Rightarrow> suspend i (ReadingBody full' buffer') c'))
           | End \<Rightarrow> Some (suspend i Finished (fst (call OnDone (c, full))))
           | Failure e \<Rightarrow> Some (suspend i Finished (fst (call (OnError e) (c, full))))
           | _ \<Rightarrow> None)
      | ReadingErrorBody status errData \<Rightarrow>
          (case inp of
             Data chunk \<Rightarrow> Some (suspend i (ReadingErrorBody status (errData @ chunk)) c)
           | End \<Rightarrow>
               Some (suspend i Finished
                       (fst (call (OnError (''HTTP '' @ dec status @ '': '' @ errData)) (c, []))))
           | Failure e \<Rightarrow> Some (suspend i Finished c)
           | _ \<Rightarrow> None)
      | AwaitCommand \<Rightarrow>
          (case inp of
             CommandDone \<Rightarrow> Some (suspend i AwaitStatusCookie c)
           | CommandFailed \<Rightarrow> Some (suspend i Finished c)
           | _ \<Rightarrow> None)
      | AwaitStatusCookie \<Rightarrow>
          (case inp of
             Cookie ck \<Rightarrow> Some (suspend i Finished (post [CookieStatus (hasCookie ck)] c))
           | _ \<Rightarrow> None)
      | Finished \<Rightarrow> None)\<close>

text \<open>The listener of the webview and the resumption of a handler.\<close>

fun step :: "(string \<Rightarrow> json option) \<Rightarrow> event \<Rightarrow> client \<Rightarrow> client option" where
  "step jp (Message (SendMessage text)) c =
     Some (if trim text = [] then c else spawn (AwaitHasCookie text) c)"
| "step jp (Message NewConversation) c =
     Some (post [ClearChat]
             (c\<lparr>arrays := (arrays c)(allocated c := []),
                allocated := Suc (allocated c),
                this_messages := allocated c,
                this_conversationId := None\<rparr>))"
| "step jp (Message SetCookie) c = Some (spawn AwaitCommand c)"
| "step jp (Resume i inp) c =
     (if i < length (tasks c) then resume jp i (tasks c ! i) inp c else None)"



text \<open>The three fields as values.\<close>

definition panel_of :: "client \<Rightarrow> panel" where
  "panel_of c =
     \<lparr>messages = history c, orgId = this_orgId c, conversationId = this_conversationId c\<rparr>"




section \<open>Notions used to state the properties\<close>

text \<open>
  The test of the loop for the terminator (\<open>line.startsWith('data: ')\<close> and
  \<open>line.slice(6).trim() === '[DONE]'\<close>), and the complete lines of a text: all the
  parts \<open>split('\n')\<close> gives but the last.
\<close>

definition is_done_line :: "string \<Rightarrow> bool" where
  "is_done_line line = (starts_with ''data: '' line \<and> trim (drop 6 line) = ''[DONE]'')"

definition complete_lines :: "string \<Rightarrow> string list" where
  "complete_lines body = butlast (split_nl body)"

text \<open>The callbacks that post an event ending the invocation.\<close>

fun ends_stream :: "callback \<Rightarrow> bool" where
  "ends_stream OnDone = True"
| "ends_stream (OnError e) = True"
| "ends_stream (OnChunk v) = False"

text \<open>
  Two classes of streaming exchanges. \<open>ends_once\<close>: no terminator line is decoded
  before the stream finishes, and an error body is read to its end. \<open>fails_cleanly\<close>:
  such an exchange that finishes in a failure (a request error, a status of 400 or
  more, a stream that breaks).
\<close>

definition ends_once :: "(string \<Rightarrow> json option) \<Rightarrow> stream_result \<Rightarrow> bool" where
  "ends_once jp outcome =
     (case outcome of
        ConnError e \<Rightarrow> True
      | StreamResponse status chunks fin \<Rightarrow>
          if status \<ge> 400 then fin = StreamEnd else OnDone \<notin> set (feed jp [] chunks))"

definition fails_cleanly :: "(string \<Rightarrow> json option) \<Rightarrow> stream_result \<Rightarrow> bool" where
  "fails_cleanly jp outcome =
     (case outcome of
        ConnError e \<Rightarrow> True
      | StreamResponse status chunks fin \<Rightarrow>
          if status \<ge> 400 then fin = StreamEnd
          else (case fin of
                  StreamEnd \<Rightarrow> False
                | StreamFail e \<Rightarrow> OnDone \<notin> set (feed jp [] chunks)))"

section \<open>Worked inputs\<close>

text \<open>
  \<open>JSON.parse\<close> itself is the host's and every general statement below holds for any
  \<open>jp\<close>. To run the program on concrete streams, \<open>sample_parse\<close> gives the value of
  \<open>JSON.parse\<close> on the payloads those streams carry; the only other string the worked
  inputs hand to it is \<open>oops\<close>, which is not JSON.
\<close>

definition sample_parse :: "string \<Rightarrow> json option" where
  \<open>sample_parse = map_of
     [(''[{"uuid":"org-1"}]'', JArr [JObj [(''uuid'', JStr ''org-1'')]]),
      (''[]'', JArr []),
      (''{"uuid":"conv-1"}'', JObj [(''uuid'', JStr ''conv-1'')]),
      (''{"type":"content_block_delta","delta":{"type":"text_delta","text":"Hel"}}'',
         JObj [(''type'', JStr ''content_block_delta''),
               (''delta'', JObj [(''type'', JStr ''text_delta''), (''text'', JStr ''Hel'')])]),
      (''{"type":"content_block_delta","delta":{"type":"text_delta","text":"lo"}}'',
         JObj [(''type'', JStr ''content_block_delta''),
               (''delta'', JObj [(''type'', JStr ''text_delta''), (''text'', JStr ''lo'')])]),
      (''{"completion":"Hi"}'', JObj [(''completion'', JStr ''Hi'')]),
      (''{"completion":""}'', JObj [(''completion'', JStr [])]),
      (''{"type":"ping"}'', JObj [(''type'', JStr ''ping'')])]\<close>

text \<open>A panel that has sent nothing yet, and one with both identifiers cached.\<close>

definition fresh_panel :: panel where
  "fresh_panel = \<lparr>messages = [], orgId = None, conversationId = None\<rparr>"

definition ready_panel :: panel where
  "ready_panel =
     \<lparr>messages = [], orgId = Some (JStr ''org-1''), conversationId = Some (JStr ''conv-1'')\<rparr>"


text \<open>Answers of the remote side: both bootstrap calls succeed, then the given stream.\<close>

definition answers :: "stream_result \<Rightarrow> network" where
  \<open>answers outcome =
     \<lparr>org_response = HttpResponse 200 ''[{"uuid":"org-1"}]'',
      conv_response = HttpResponse 200 ''{"uuid":"conv-1"}'',
      completion = outcome\<rparr>\<close>

section \<open>Blank text and blank credentials\<close>

lemma dropWhile_all: "list_all P xs \<Longrightarrow> dropWhile P xs = []"
  by (induction xs) auto

lemma dropWhile_rest: "list_all P (dropWhile P xs) \<Longrightarrow> list_all P xs"
  by (induction xs) (auto split: if_splits)

lemma trim_blank: "list_all is_ws s \<Longrightarrow> trim s = []"
  by (simp add: trim_def dropWhile_all)

text \<open>\<open>trim\<close> leaves nothing exactly when every character is white space.\<close>

lemma trim_Nil_iff: "trim s = [] \<longleftrightarrow> list_all is_ws s"
proof
  assume "trim s = []"
  then have "list_all is_ws (rev (dropWhile is_ws s))"
    by (simp add: trim_def dropWhile_eq_Nil_conv list_all_iff)
  then have "list_all is_ws (dropWhile is_ws s)" by (simp add: list_all_iff)
  then show "list_all is_ws s" by (rule dropWhile_rest)
next
  assume "list_all is_ws s"
  then show "trim s = []" by (rule trim_blank)
qed

text \<open>
  C9. A text that is empty or holds only white space trims to the empty string, and
  \<open>_handleUserMessage\<close> then returns at once: no event is posted, no request is issued,
  and the panel (history, organization, conversation) is as before. No error is raised.
\<close>

theorem C9_blank_prompt:
  assumes "list_all is_ws text"
  shows "trim text = [] \<and> handleUserMessage jp store net text s = (s, [], [])"
  using assms by (simp add: handleUserMessage_def trim_blank)

theorem C9_blank_prompt_witness:
  "list_all is_ws ''   '' \<and>
   handleUserMessage sample_parse (Some ''sk'') (answers (ConnError ''x'')) ''   '' fresh_panel
     = (fresh_panel, [], []) \<and>
   handleUserMessage sample_parse (Some ''sk'') (answers (ConnError ''x'')) [] fresh_panel
     = (fresh_panel, [], [])"
proof -
  have a: "list_all is_ws ''   ''" by (simp add: is_ws_def)
  have b: "list_all is_ws []" by simp
  show ?thesis
    using a C9_blank_prompt [OF a, of sample_parse "Some ''sk''" "answers (ConnError ''x'')" fresh_panel]
      C9_blank_prompt [OF b, of sample_parse "Some ''sk''" "answers (ConnError ''x'')" fresh_panel]
    by simp
qed

text \<open>
  C6. With a text that is not blank and a store that holds no token (nothing stored, or
  the empty string), the invocation posts exactly one \<open>error\<close> event and nothing else:
  no request is issued and the panel (history, organization, conversation) is unchanged.
\<close>

theorem C6_no_token:
  assumes "trim text \<noteq> []" and "\<not> hasCookie store"
  shows \<open>handleUserMessage jp store net text s =
           (s, [Error ''No session cookie set. Click "Set Cookie" to configure.''], [])\<close>
  using assms by (simp add: handleUserMessage_def)

theorem C6_no_token_witness:
  \<open>trim ''hi'' \<noteq> [] \<and> \<not> hasCookie None \<and>
   handleUserMessage sample_parse None (answers (ConnError ''x'')) ''hi'' fresh_panel =
     (fresh_panel, [Error ''No session cookie set. Click "Set Cookie" to configure.''], [])\<close>
proof -
  have a: "trim ''hi'' \<noteq> []" by (simp add: trim_def is_ws_def)
  have b: "\<not> hasCookie None" by (simp add: hasCookie_def getCookie_def)
  show ?thesis
    using a b C6_no_token [OF a b, of sample_parse "answers (ConnError ''x'')" fresh_panel]
    by simp
qed

text \<open>
  C10. \<open>setCookie\<close> with a string of white space only stores the empty string;
  \<open>hasCookie\<close> is then false, the status shown is the one shown after \<open>clearCookie\<close>, and
  a following prompt fails the check for a cookie: one \<open>error\<close> event, no request.
\<close>

theorem C10_blank_cookie:
  assumes "list_all is_ws cookie" and "trim text \<noteq> []"
  shows \<open>setCookie cookie store = Some [] \<and>
         \<not> hasCookie (setCookie cookie store) \<and>
         checkCookieStatus (setCookie cookie store) = checkCookieStatus (clearCookie store) \<and>
         handleUserMessage jp (setCookie cookie store) net text s =
           (s, [Error ''No session cookie set. Click "Set Cookie" to configure.''], [])\<close>
  using assms
  by (simp add: setCookie_def clearCookie_def trim_blank hasCookie_def getCookie_def
      checkCookieStatus_def handleUserMessage_def)

theorem C10_blank_cookie_witness:
  \<open>list_all is_ws '' \<newline> '' \<and> trim ''hi'' \<noteq> [] \<and>
   setCookie '' \<newline> '' (Some ''old'') = Some [] \<and>
   \<not> hasCookie (setCookie '' \<newline> '' (Some ''old'')) \<and>
   handleUserMessage sample_parse (setCookie '' \<newline> '' (Some ''old'')) (answers (ConnError ''x''))
       ''hi'' ready_panel =
     (ready_panel, [Error ''No session cookie set. Click "Set Cookie" to configure.''], [])\<close>
proof -
  have a: "list_all is_ws '' \<newline> ''" by (simp add: is_ws_def)
  have b: "trim ''hi'' \<noteq> []" by (simp add: trim_def is_ws_def)
  show ?thesis
    using a b C10_blank_cookie [OF a b, of "Some ''old''" sample_parse "answers (ConnError ''x'')" ready_panel]
    by blast
qed

section \<open>Failure of the organization request\<close>

lemma getOrganizationId_network_error:
  "hasCookie store \<Longrightarrow> getOrganizationId jp store (NetError e) = (Inl e, [GetOrganizations])"
  by (simp add: getOrganizationId_def org_answer_def)

lemma getOrganizationId_empty_list:
  "hasCookie store \<Longrightarrow> jp data = Some (JArr []) \<Longrightarrow>
   getOrganizationId jp store (HttpResponse status data) =
     (Inl (''Could not get organization. Response: '' @ data), [GetOrganizations])"
  by (simp add: getOrganizationId_def org_answer_def)

lemma getOrganizationId_requests:
  "hasCookie store \<Longrightarrow> snd (getOrganizationId jp store resp) = [GetOrganizations]"
  by (simp add: getOrganizationId_def)

text \<open>
  C5, as stated, fails. The user message is pushed and \<open>userMessage\<close> and \<open>thinking\<close>
  are posted before the organization is asked for, so when the organization list comes
  back empty the history already holds the user message and a \<open>userMessage\<close> event has
  been posted.
\<close>

theorem C5_counterexample:
  \<open>handleUserMessage sample_parse (Some ''sk'')
      \<lparr>org_response = HttpResponse 200 ''[]'', conv_response = NetError ''unused'',
       completion = ConnError ''unused''\<rparr> ''hi'' fresh_panel =
     (\<lparr>messages = [\<lparr>role = User, content = ''hi''\<rparr>], orgId = None, conversationId = None\<rparr>,
      [UserMessage ''hi'', Thinking, Status ''Getting organization...'',
       Error ''Error: Could not get organization. Response: []''],
      [GetOrganizations]) \<and>
   messages fresh_panel = []\<close>
  by (simp add: handleUserMessage_def trim_def is_ws_def hasCookie_def getCookie_def
      ensure_org_def truthy_val_def fresh_panel_def getOrganizationId_def org_answer_def
      sample_parse_def)

text \<open>
  C5, amended. When the text is not blank, a cookie is stored, no organization is cached
  and the organization request is rejected with message \<open>e\<close> (a request error, a body
  that does not parse, a body that is not a non-empty array), the invocation posts
  \<open>userMessage\<close>, \<open>thinking\<close>, one status and then exactly one \<open>error\<close>; the history
  holds the user message, appended before the request, and nothing else new; the
  organization and conversation identifiers are unchanged; the organization request is
  the only request issued.
\<close>

theorem C5_org_resolution_failure:
  assumes "trim text \<noteq> []" and "hasCookie store" and "\<not> truthy_val (orgId s)"
    and "fst (getOrganizationId jp store (org_response net)) = Inl e"
  shows "handleUserMessage jp store net text s =
           (s\<lparr>messages := messages s @ [\<lparr>role = User, content = text\<rparr>]\<rparr>,
            [UserMessage text, Thinking, Status ''Getting organization...'', Error (''Error: '' @ e)],
            [GetOrganizations])"
proof -
  from assms(2) have "snd (getOrganizationId jp store (org_response net)) = [GetOrganizations]"
    by (rule getOrganizationId_requests)
  with assms(4) have "getOrganizationId jp store (org_response net) = (Inl e, [GetOrganizations])"
    by (simp add: prod_eq_iff)
  with assms(1-3) show ?thesis
    by (simp add: handleUserMessage_def ensure_org_def)
qed

theorem C5_org_resolution_failure_witness:
  \<open>trim ''hi'' \<noteq> [] \<and> hasCookie (Some ''sk'') \<and> \<not> truthy_val (orgId fresh_panel) \<and>
   fst (getOrganizationId sample_parse (Some ''sk'') (HttpResponse 200 ''[]'')) =
     Inl ''Could not get organization. Response: []'' \<and>
   handleUserMessage sample_parse (Some ''sk'')
      \<lparr>org_response = HttpResponse 200 ''[]'', conv_response = NetError ''unused'',
       completion = ConnError ''unused''\<rparr> ''hi'' fresh_panel =
     (fresh_panel\<lparr>messages := messages fresh_panel @ [\<lparr>role = User, content = ''hi''\<rparr>]\<rparr>,
      [UserMessage ''hi'', Thinking, Status ''Getting organization...'',
       Error ''Error: Could not get organization. Response: []''],
      [GetOrganizations])\<close>
proof -
  let ?net = "\<lparr>org_response = HttpResponse 200 ''[]'', conv_response = NetError ''unused'',
       completion = ConnError ''unused''\<rparr>"
  have a: "trim ''hi'' \<noteq> []" by (simp add: trim_def is_ws_def)
  have b: "hasCookie (Some ''sk'')" by (simp add: hasCookie_def getCookie_def)
  have c: "\<not> truthy_val (orgId fresh_panel)" by (simp add: truthy_val_def fresh_panel_def)
  have d: "fst (getOrganizationId sample_parse (Some ''sk'') (org_response ?net)) =
     Inl ''Could not get organization. Response: []''"
    by (simp add: getOrganizationId_def org_answer_def b sample_parse_def)
  show ?thesis
    using a b c d C5_org_resolution_failure [OF a b c d] by simp
qed

section \<open>One data line\<close>

lemma process_lines_data:
  "starts_with ''data: '' line \<Longrightarrow> trim (drop 6 line) \<noteq> ''[DONE]'' \<Longrightarrow>
   process_lines jp (line # rest) = on_payload jp (trim (drop 6 line)) @ process_lines jp rest"
  by simp

lemma process_lines_done:
  "starts_with ''data: '' line \<Longrightarrow> trim (drop 6 line) = ''[DONE]'' \<Longrightarrow>
   process_lines jp (line # rest) = [OnDone]"
  by simp

lemma process_lines_other:
  "\<not> starts_with ''data: '' line \<Longrightarrow> process_lines jp (line # rest) = process_lines jp rest"
  by simp

text \<open>
  C4, as stated, fails. The legacy branch tests \<open>parsed.completion\<close> for truthiness, so
  a legacy envelope whose completion field is the empty text calls nothing, where the
  claim has a delta event with that text.
\<close>

theorem C4_counterexample:
  \<open>sample_parse ''{"completion":""}'' = Some (JObj [(''completion'', JStr [])]) \<and>
   process_lines sample_parse [''data: {"completion":""}''] = []\<close>
  by (simp add: sample_parse_def starts_with_def trim_def is_ws_def on_payload_def nested_delta_def
      truthy_val_def)

text \<open>
  C4, amended. For a complete data line whose payload is not the terminator: a payload
  that parses to a nested-delta envelope (type \<open>content_block_delta\<close>, a delta of type
  \<open>text_delta\<close>) with a text \<open>t\<close> calls \<open>onChunk\<close> with \<open>t\<close>; a payload that is not such an
  envelope and carries a non-empty completion text \<open>t\<close> calls \<open>onChunk\<close> with \<open>t\<close>; a
  payload that does not parse, and a payload that is not such an envelope and has no
  truthy completion field, call nothing. In each case the loop goes on to the next line.
\<close>

theorem C4_data_line:
  assumes "starts_with ''data: '' line" and "payload = trim (drop 6 line)"
    and "payload \<noteq> ''[DONE]''"
  shows "(\<forall>parsed delta t.
            jp payload = Some parsed \<and> nested_delta parsed \<and>
            field_of parsed ''delta'' = Some delta \<and> field_of delta ''text'' = Some (JStr t)
            \<longrightarrow> process_lines jp (line # rest) = OnChunk (Some (JStr t)) # process_lines jp rest) \<and>
         (\<forall>parsed t.
            jp payload = Some parsed \<and> \<not> nested_delta parsed \<and>
            field_of parsed ''completion'' = Some (JStr t) \<and> t \<noteq> []
            \<longrightarrow> process_lines jp (line # rest) = OnChunk (Some (JStr t)) # process_lines jp rest) \<and>
         (jp payload = None \<longrightarrow> process_lines jp (line # rest) = process_lines jp rest) \<and>
         (\<forall>parsed.
            jp payload = Some parsed \<and> \<not> nested_delta parsed \<and>
            \<not> truthy_val (field_of parsed ''completion'')
            \<longrightarrow> process_lines jp (line # rest) = process_lines jp rest)"
proof -
  have step: "process_lines jp (line # rest) = on_payload jp payload @ process_lines jp rest"
    using assms by simp
  have nested: "on_payload jp payload = [OnChunk (Some (JStr t))]"
    if "jp payload = Some parsed" "nested_delta parsed"
       "field_of parsed ''delta'' = Some delta" "field_of delta ''text'' = Some (JStr t)"
    for parsed delta t
  proof -
    from that(2) have "parsed \<noteq> JNull" by (auto simp: nested_delta_def)
    with that show ?thesis by (simp add: on_payload_def)
  qed
  have legacy: "on_payload jp payload = [OnChunk (Some (JStr t))]"
    if "jp payload = Some parsed" "\<not> nested_delta parsed"
       "field_of parsed ''completion'' = Some (JStr t)" "t \<noteq> []"
    for parsed t
  proof -
    from that(3) have "parsed \<noteq> JNull" by auto
    with that show ?thesis by (simp add: on_payload_def truthy_val_def)
  qed
  have unparsed: "on_payload jp payload = []" if "jp payload = None"
    using that by (simp add: on_payload_def)
  have other: "on_payload jp payload = []"
    if "jp payload = Some parsed" "\<not> nested_delta parsed"
       "\<not> truthy_val (field_of parsed ''completion'')"
    for parsed
    using that by (simp add: on_payload_def)
  show ?thesis
    using step nested legacy unparsed other by simp
qed

theorem C4_data_line_witness:
  \<open>process_lines sample_parse
     [''data: {"type":"content_block_delta","delta":{"type":"text_delta","text":"Hel"}}'']
     = [OnChunk (Some (JStr ''Hel''))] \<and>
   process_lines sample_parse [''data: {"completion":"Hi"}''] = [OnChunk (Some (JStr ''Hi''))] \<and>
   process_lines sample_parse [''data: oops''] = [] \<and>
   process_lines sample_parse [''data: {"type":"ping"}''] = []\<close>
proof -
  let ?l1 = \<open>''data: {"type":"content_block_delta","delta":{"type":"text_delta","text":"Hel"}}''\<close>
  let ?p1 = \<open>''{"type":"content_block_delta","delta":{"type":"text_delta","text":"Hel"}}''\<close>
  let ?l2 = \<open>''data: {"completion":"Hi"}''\<close>
  let ?p2 = \<open>''{"completion":"Hi"}''\<close>
  let ?l4 = \<open>''data: {"type":"ping"}''\<close>
  let ?p4 = \<open>''{"type":"ping"}''\<close>
  have pre: "starts_with ''data: '' ?l1" "starts_with ''data: '' ?l2"
    "starts_with ''data: '' ''data: oops''" "starts_with ''data: '' ?l4"
    by (simp_all add: starts_with_def)
  have pay: "?p1 = trim (drop 6 ?l1)" "?p2 = trim (drop 6 ?l2)"
    "''oops'' = trim (drop 6 ''data: oops'')" "?p4 = trim (drop 6 ?l4)"
    by (simp_all add: trim_def is_ws_def)
  have nd: "?p1 \<noteq> ''[DONE]''" "?p2 \<noteq> ''[DONE]''" "''oops'' \<noteq> ''[DONE]''" "?p4 \<noteq> ''[DONE]''"
    by simp_all
  have j1: "sample_parse ?p1 = Some (JObj [(''type'', JStr ''content_block_delta''),
               (''delta'', JObj [(''type'', JStr ''text_delta''), (''text'', JStr ''Hel'')])])"
    by (simp add: sample_parse_def)
  have j2: "sample_parse ?p2 = Some (JObj [(''completion'', JStr ''Hi'')])"
    by (simp add: sample_parse_def)
  have j3: "sample_parse ''oops'' = None"
    by (simp add: sample_parse_def)
  have j4: "sample_parse ?p4 = Some (JObj [(''type'', JStr ''ping'')])"
    by (simp add: sample_parse_def)
  have r1: "process_lines sample_parse [?l1] = [OnChunk (Some (JStr ''Hel''))]"
    using C4_data_line [OF pre(1) pay(1) nd(1), of sample_parse "[]"] j1
    by (simp add: nested_delta_def opt_chain_def)
  have r2: "process_lines sample_parse [?l2] = [OnChunk (Some (JStr ''Hi''))]"
    using C4_data_line [OF pre(2) pay(2) nd(2), of sample_parse "[]"] j2
    by (simp add: nested_delta_def opt_chain_def)
  have r3: "process_lines sample_parse [''data: oops''] = []"
    using C4_data_line [OF pre(3) pay(3) nd(3), of sample_parse "[]"] j3
    by simp
  have r4: "process_lines sample_parse [?l4] = []"
    using C4_data_line [OF pre(4) pay(4) nd(4), of sample_parse "[]"] j4
    by (simp add: nested_delta_def opt_chain_def truthy_val_def)
  from r1 r2 r3 r4 show ?thesis by blast
qed

section \<open>Lines and chunks\<close>

text \<open>
  The buffer carries the unfinished last line from one chunk to the next, so the lines
  the loop sees are the complete lines of the text received so far. As long as no
  terminator line has a complete line after it, how the text is cut into chunks does
  not change the callbacks.
\<close>

lemma split_nl_nonempty: "split_nl s \<noteq> []"
  by (induction s) (auto split: list.splits)

lemma split_nl_no_newline: "CHR 0x0A \<notin> set s \<Longrightarrow> split_nl s = [s]"
  by (induction s) auto

lemma split_nl_parts: "l \<in> set (split_nl s) \<Longrightarrow> CHR 0x0A \<notin> set l"
  by (induction s arbitrary: l) (auto split: if_splits list.splits)

lemma last_split_nl: "CHR 0x0A \<notin> set (last (split_nl s))"
  using split_nl_parts [of "last (split_nl s)" s] split_nl_nonempty [of s] by simp

lemma split_nl_append:
  "split_nl (a @ b) = butlast (split_nl a) @ split_nl (last (split_nl a) @ b)"
proof (induction a)
  case Nil
  then show ?case by simp
next
  case (Cons c cs)
  show ?case
  proof (cases "c = CHR 0x0A")
    case True
    with Cons show ?thesis by (simp add: split_nl_nonempty)
  next
    case False
    obtain l ls where sp: "split_nl cs = l # ls"
      using split_nl_nonempty [of cs] by (cases "split_nl cs") auto
    show ?thesis
    proof (cases ls)
      case Nil
      with sp Cons False show ?thesis by simp
    next
      case (Cons x xs)
      with sp Cons.IH False show ?thesis by simp
    qed
  qed
qed

lemma complete_lines_append:
  "complete_lines (a @ b) = complete_lines a @ complete_lines (last (split_nl a) @ b)"
  by (simp add: complete_lines_def split_nl_append [of a b] butlast_append split_nl_nonempty)

lemma process_lines_append:
  "list_all (\<lambda>l. \<not> is_done_line l) xs \<Longrightarrow>
   process_lines jp (xs @ ys) = process_lines jp xs @ process_lines jp ys"
  by (induction xs) (auto simp: is_done_line_def Let_def)

lemma feed_single: "feed jp [] [body] = process_lines jp (complete_lines body)"
  by (simp add: on_data_def complete_lines_def Let_def)

lemma feed_complete_lines:
  assumes "CHR 0x0A \<notin> set buffer"
    and "list_all (\<lambda>l. \<not> is_done_line l) (butlast (complete_lines (buffer @ concat chunks)))"
  shows "feed jp buffer chunks = process_lines jp (complete_lines (buffer @ concat chunks))"
  using assms
proof (induction chunks arbitrary: buffer)
  case Nil
  then show ?case by (simp add: complete_lines_def split_nl_no_newline)
next
  case (Cons c cs)
  let ?b = "last (split_nl (buffer @ c))"
  let ?L1 = "complete_lines (buffer @ c)"
  let ?L2 = "complete_lines (?b @ concat cs)"
  have all: "complete_lines (buffer @ concat (c # cs)) = ?L1 @ ?L2"
    using complete_lines_append [of "buffer @ c" "concat cs"] by simp
  have nb: "CHR 0x0A \<notin> set ?b" by (rule last_split_nl)
  have step: "feed jp buffer (c # cs) = process_lines jp ?L1 @ feed jp ?b cs"
    by (simp add: on_data_def Let_def complete_lines_def split_nl_nonempty)
  show ?case
  proof (cases "?L2 = []")
    case True
    then have "feed jp ?b cs = process_lines jp ?L2"
      using Cons.IH [OF nb] by simp
    with True all step show ?thesis by simp
  next
    case False
    with Cons.prems(2) all have no1: "list_all (\<lambda>l. \<not> is_done_line l) ?L1"
      and no2: "list_all (\<lambda>l. \<not> is_done_line l) (butlast ?L2)"
      by (simp_all add: butlast_append)
    from Cons.IH [OF nb no2] have "feed jp ?b cs = process_lines jp ?L2" .
    with step all process_lines_append [OF no1] show ?thesis by simp
  qed
qed

lemma chunk_boundary_independence:
  assumes "list_all (\<lambda>l. \<not> is_done_line l) (butlast (complete_lines (concat chunks)))"
  shows "feed jp [] chunks = feed jp [] [concat chunks]"
proof -
  have "feed jp [] chunks = process_lines jp (complete_lines (concat chunks))"
    using feed_complete_lines [of "[]" chunks jp] assms by simp
  then show ?thesis by (simp only: feed_single)
qed

text \<open>A body cut inside its lines gives the callbacks of the whole body.\<close>

lemma chunk_boundary_independence_example:
  \<open>feed sample_parse [] [''data: {"comple'', ''tion":"Hi"}\<newline>data: [DO'', ''NE]\<newline>'']
     = feed sample_parse [] [''data: {"completion":"Hi"}\<newline>data: [DONE]\<newline>''] \<and>
   feed sample_parse [] [''data: {"completion":"Hi"}\<newline>data: [DONE]\<newline>'']
     = [OnChunk (Some (JStr ''Hi'')), OnDone]\<close>
proof -
  let ?chunks = \<open>[''data: {"comple'', ''tion":"Hi"}\<newline>data: [DO'', ''NE]\<newline>'']\<close>
  have h: "list_all (\<lambda>l. \<not> is_done_line l) (butlast (complete_lines (concat ?chunks)))"
    by code_simp
  have c: \<open>concat ?chunks = ''data: {"completion":"Hi"}\<newline>data: [DONE]\<newline>''\<close>
    by simp
  have e: \<open>feed sample_parse [] [''data: {"completion":"Hi"}\<newline>data: [DONE]\<newline>'']
     = [OnChunk (Some (JStr ''Hi'')), OnDone]\<close>
    by code_simp
  from chunk_boundary_independence [OF h, of sample_parse] c e show ?thesis
    by simp
qed

section \<open>Events that end an invocation\<close>

text \<open>
  The decoder itself never calls \<open>onError\<close>, and calls \<open>onDone\<close> only at a terminator
  line. An invocation that gets past the cookie check either fails before the stream
  with one \<open>error\<close>, or posts what the callbacks of the stream post.
\<close>

lemma on_payload_chunks: "cb \<in> set (on_payload jp data) \<Longrightarrow> \<not> ends_stream cb"
  by (auto simp: on_payload_def split: option.splits if_splits)

lemma process_lines_no_error: "OnError e \<notin> set (process_lines jp ls)"
proof (induction ls)
  case Nil
  then show ?case by simp
next
  case (Cons l ls)
  have "OnError e \<notin> set (on_payload jp d)" for d
    using on_payload_chunks [of "OnError e" jp d] by auto
  with Cons show ?case by (simp add: Let_def)
qed

lemma process_lines_no_done:
  "list_all (\<lambda>l. \<not> is_done_line l) ls \<Longrightarrow> OnDone \<notin> set (process_lines jp ls)"
proof (induction ls)
  case Nil
  then show ?case by simp
next
  case (Cons l ls)
  have "OnDone \<notin> set (on_payload jp d)" for d
    using on_payload_chunks [of OnDone jp d] by auto
  with Cons show ?case by (auto simp: Let_def is_done_line_def)
qed

lemma feed_no_error: "OnError e \<notin> set (feed jp buffer chunks)"
  by (induction chunks arbitrary: buffer) (auto simp: on_data_def Let_def process_lines_no_error)

lemma feed_no_done:
  assumes "list_all (\<lambda>l. \<not> is_done_line l) (complete_lines (concat chunks))"
  shows "OnDone \<notin> set (feed jp [] chunks)"
proof -
  from assms have "list_all (\<lambda>l. \<not> is_done_line l) (butlast (complete_lines (concat chunks)))"
    by (auto simp: list_all_iff dest: in_set_butlastD)
  then have "feed jp [] chunks = process_lines jp (complete_lines (concat chunks))"
    using feed_complete_lines [of "[]" chunks jp] by simp
  with assms show ?thesis by (simp add: process_lines_no_done)
qed

lemma deliver_terminals:
  "length (filter is_terminal (snd (deliver cbs msgs full))) = length (filter ends_stream cbs)"
  by (induction cbs msgs full rule: deliver.induct) (auto split: prod.splits option.splits)

lemma deliver_history:
  "OnDone \<notin> set cbs \<Longrightarrow> fst (deliver cbs msgs full) = msgs"
  by (induction cbs msgs full rule: deliver.induct) (auto split: prod.splits option.splits)

lemma feed_ends:
  "OnDone \<notin> set (feed jp buffer chunks) \<Longrightarrow> filter ends_stream (feed jp buffer chunks) = []"
proof -
  assume nd: "OnDone \<notin> set (feed jp buffer chunks)"
  have "\<not> ends_stream cb" if "cb \<in> set (feed jp buffer chunks)" for cb
  proof (cases cb)
    case (OnChunk v)
    then show ?thesis by simp
  next
    case OnDone
    with that nd show ?thesis by simp
  next
    case (OnError e)
    with that feed_no_error [of e jp buffer chunks] show ?thesis by simp
  qed
  then show ?thesis by (simp add: filter_empty_conv)
qed

lemma stream_callbacks_ends:
  "ends_once jp outcome \<Longrightarrow> length (filter ends_stream (stream_callbacks jp outcome)) = 1"
  by (auto simp: ends_once_def stream_callbacks_def feed_ends
      split: stream_result.splits stream_end.splits if_splits)

lemma ensure_org_events:
  "ensure_org jp store net s = (r, d, c) \<Longrightarrow> filter is_terminal d = []"
  by (auto simp: ensure_org_def split: if_splits prod.splits sum.splits)

lemma ensure_conversation_events:
  "ensure_conversation jp store net s = (r, d, c) \<Longrightarrow> filter is_terminal d = []"
  by (auto simp: ensure_conversation_def split: if_splits prod.splits sum.splits)

lemma ensure_org_messages:
  "ensure_org jp store net s = (Inr s2, d, c) \<Longrightarrow> messages s2 = messages s"
  by (auto simp: ensure_org_def split: if_splits prod.splits sum.splits)

lemma ensure_conversation_messages:
  "ensure_conversation jp store net s = (Inr s2, d, c) \<Longrightarrow> messages s2 = messages s"
  by (auto simp: ensure_conversation_def split: if_splits prod.splits sum.splits)

lemma handleUserMessage_cases:
  assumes "trim text \<noteq> []" and "hasCookie store"
  obtains (failed) pre e where
      "events (handleUserMessage jp store net text s) = pre @ [Error e]"
      "filter is_terminal pre = []"
      "messages (panel_after (handleUserMessage jp store net text s))
         = messages s @ [\<lparr>role = User, content = text\<rparr>]"
  | (streamed) pre where
      "events (handleUserMessage jp store net text s)
         = pre @ snd (deliver (stream_callbacks jp (completion net))
                        (messages s @ [\<lparr>role = User, content = text\<rparr>]) [])"
      "filter is_terminal pre = []"
      "messages (panel_after (handleUserMessage jp store net text s))
         = fst (deliver (stream_callbacks jp (completion net))
                  (messages s @ [\<lparr>role = User, content = text\<rparr>]) [])"
proof -
  let ?u = "\<lparr>role = User, content = text\<rparr>"
  let ?s1 = "s\<lparr>messages := messages s @ [?u]\<rparr>"
  obtain r2 d2 c2 where o: "ensure_org jp store net ?s1 = (r2, d2, c2)"
    by (cases "ensure_org jp store net ?s1") auto
  have t2: "filter is_terminal d2 = []" using o by (rule ensure_org_events)
  show thesis
  proof (cases r2)
    case (Inl e)
    with assms o have
      "events (handleUserMessage jp store net text s)
         = ([UserMessage text, Thinking] @ d2) @ [Error (''Error: '' @ e)]"
      "messages (panel_after (handleUserMessage jp store net text s)) = messages s @ [?u]"
      by (simp_all add: handleUserMessage_def events_def panel_after_def)
    moreover have "filter is_terminal ([UserMessage text, Thinking] @ d2) = []"
      using t2 by simp
    ultimately show thesis using failed by blast
  next
    case s2: (Inr s2)
    with o have m2: "messages s2 = messages s @ [?u]"
      using ensure_org_messages [of jp store net ?s1 s2 d2 c2] by simp
    obtain r3 d3 c3 where c: "ensure_conversation jp store net s2 = (r3, d3, c3)"
      by (cases "ensure_conversation jp store net s2") auto
    have t3: "filter is_terminal d3 = []" using c by (rule ensure_conversation_events)
    show thesis
    proof (cases r3)
      case (Inl e)
      with assms o c s2 m2 have
        "events (handleUserMessage jp store net text s)
           = ([UserMessage text, Thinking] @ d2 @ d3) @ [Error (''Error: '' @ e)]"
        "messages (panel_after (handleUserMessage jp store net text s)) = messages s @ [?u]"
        by (simp_all add: handleUserMessage_def events_def panel_after_def)
      moreover have "filter is_terminal ([UserMessage text, Thinking] @ d2 @ d3) = []"
        using t2 t3 by simp
      ultimately show thesis using failed by blast
    next
      case s3: (Inr s3)
      with c have m3: "messages s3 = messages s @ [?u]"
        using ensure_conversation_messages [of jp store net s2 s3 d3 c3] m2 by simp
      let ?cbs = "stream_callbacks jp (completion net)"
      obtain r4 c4 where
        sm: "sendMessage jp store (orgId s3) (conversationId s3) (messages s3) (completion net)
               = (r4, c4)"
        by (cases "sendMessage jp store (orgId s3) (conversationId s3) (messages s3) (completion net)")
          auto
      have t4: "filter is_terminal ([UserMessage text, Thinking] @ d2 @ d3 @ [StartAssistantMessage])
                  = []"
        using t2 t3 by simp
      show thesis
      proof (cases r4)
        case (Inl e)
        with assms o c s2 s3 sm m3 have
          "events (handleUserMessage jp store net text s)
             = ([UserMessage text, Thinking] @ d2 @ d3 @ [StartAssistantMessage])
               @ [Error (''Error: '' @ e)]"
          "messages (panel_after (handleUserMessage jp store net text s)) = messages s @ [?u]"
          by (simp_all add: handleUserMessage_def events_def panel_after_def)
        with t4 show thesis using failed by blast
      next
        case (Inr cbs)
        with sm have cbs: "cbs = ?cbs"
          by (auto simp: sendMessage_def split: if_splits option.splits)
        obtain m d5 where dl: "deliver ?cbs (messages s3) [] = (m, d5)"
          by (cases "deliver ?cbs (messages s3) []") auto
        from assms o c s2 s3 sm Inr cbs dl have
          "events (handleUserMessage jp store net text s)
             = ([UserMessage text, Thinking] @ d2 @ d3 @ [StartAssistantMessage]) @ d5"
          "messages (panel_after (handleUserMessage jp store net text s)) = m"
          by (simp_all add: handleUserMessage_def events_def panel_after_def)
        with dl m3 have
          "events (handleUserMessage jp store net text s)
             = ([UserMessage text, Thinking] @ d2 @ d3 @ [StartAssistantMessage])
               @ snd (deliver ?cbs (messages s @ [?u]) [])"
          "messages (panel_after (handleUserMessage jp store net text s))
             = fst (deliver ?cbs (messages s @ [?u]) [])"
          by simp_all
        with t4 show thesis using streamed by blast
      qed
    qed
  qed
qed

lemma one_terminal_event:
  assumes "trim text \<noteq> []" and "hasCookie store" and "ends_once jp (completion net)"
  shows "length (filter is_terminal (events (handleUserMessage jp store net text s))) = 1"
  using assms(1,2)
proof (cases rule: handleUserMessage_cases [where jp = jp and net = net and s = s])
  case (failed pre e)
  then show ?thesis by simp
next
  case (streamed pre)
  then show ?thesis
    using deliver_terminals [of "stream_callbacks jp (completion net)"]
      stream_callbacks_ends [OF assms(3)]
    by simp
qed

lemma deliver_no_done_event:
  "OnDone \<notin> set cbs \<Longrightarrow> Done \<notin> set (snd (deliver cbs msgs full))"
  by (induction cbs msgs full rule: deliver.induct) (auto split: prod.splits option.splits)

lemma fails_cleanly_callbacks:
  "fails_cleanly jp outcome \<Longrightarrow>
   OnDone \<notin> set (stream_callbacks jp outcome) \<and> ends_once jp outcome"
  by (auto simp: fails_cleanly_def ends_once_def stream_callbacks_def
      split: stream_result.splits stream_end.splits if_splits)

lemma clean_failure_keeps_history:
  assumes "trim text \<noteq> []" and "hasCookie store" and "fails_cleanly jp (completion net)"
  shows "messages (panel_after (handleUserMessage jp store net text s))
           = messages s @ [\<lparr>role = User, content = text\<rparr>]"
    and "Done \<notin> set (events (handleUserMessage jp store net text s))"
    and "\<exists>t. filter is_terminal (events (handleUserMessage jp store net text s)) = [Error t]"
proof -
  let ?r = "handleUserMessage jp store net text s"
  from fails_cleanly_callbacks [OF assms(3)]
  have nd: "OnDone \<notin> set (stream_callbacks jp (completion net))"
    and once: "ends_once jp (completion net)" by simp_all
  show m: "messages (panel_after ?r) = messages s @ [\<lparr>role = User, content = text\<rparr>]"
    using assms(1,2)
  proof (cases rule: handleUserMessage_cases [where jp = jp and net = net and s = s])
    case (failed pre e)
    then show ?thesis by simp
  next
    case (streamed pre)
    with deliver_history [OF nd] show ?thesis by simp
  qed
  have pre_no_done: "Done \<notin> set pre" if "filter is_terminal pre = []" for pre
    using that by (auto simp: filter_empty_conv)
  show d: "Done \<notin> set (events ?r)"
    using assms(1,2)
  proof (cases rule: handleUserMessage_cases [where jp = jp and net = net and s = s])
    case (failed pre e)
    with pre_no_done show ?thesis by simp
  next
    case (streamed pre)
    with pre_no_done deliver_no_done_event [OF nd] show ?thesis by simp
  qed
  from one_terminal_event [OF assms(1,2) once, of s]
  obtain ev where one: "filter is_terminal (events ?r) = [ev]"
    by (auto simp: length_Suc_conv)
  then have "ev \<in> set (filter is_terminal (events ?r))" by simp
  then have "is_terminal ev" "ev \<in> set (events ?r)" by simp_all
  with d obtain t where "ev = Error t" by (cases ev) auto
  with one show "\<exists>t. filter is_terminal (events ?r) = [Error t]" by simp
qed

text \<open>A stream that breaks inside its second line, before any terminator.\<close>

lemma clean_failure_example:
  \<open>fails_cleanly sample_parse
     (StreamResponse 200 [''data: {"completion":"Hi"}\<newline>'', ''data: {"comp''] (StreamFail ''aborted'')) \<and>
   handleUserMessage sample_parse (Some ''sk'')
     (answers (StreamResponse 200 [''data: {"completion":"Hi"}\<newline>'', ''data: {"comp'']
        (StreamFail ''aborted'')))
     ''hi'' ready_panel =
   (\<lparr>messages = [\<lparr>role = User, content = ''hi''\<rparr>],
     orgId = Some (JStr ''org-1''), conversationId = Some (JStr ''conv-1'')\<rparr>,
    [UserMessage ''hi'', Thinking, StartAssistantMessage, Chunk (Some (JStr ''Hi'')),
     Error ''Error: aborted''],
    [Completion ''org-1'' ''conv-1'' ''hi''])\<close>
  by code_simp

section \<open>A prompt run alone\<close>


















lemma panel_of_simps [simp]:
  "messages (panel_of c) = history c"
  "orgId (panel_of c) = this_orgId c"
  "conversationId (panel_of c) = this_conversationId c"
  by (simp_all add: panel_of_def)




section \<open>Starting a new conversation\<close>





section \<open>The terminator and the end of the stream\<close>

text \<open>
  C1 (exactly one of \<open>done\<close> and \<open>error\<close> ends an invocation that passes the cookie
  check, also when the terminator line is followed by the end of the stream). The
  program run on a stream that ends with the terminator line and then closes: the
  \<open>data\<close> handler calls \<open>onDone\<close> at the terminator and the \<open>end\<close> handler calls it
  again, so \<open>done\<close> is posted twice and the assistant message is pushed twice. Where no
  terminator line is decoded, \<open>one_terminal_event\<close> gives exactly one such event.
\<close>

theorem C1_done_twice:
  \<open>handleUserMessage sample_parse (Some ''sk'')
     (answers (StreamResponse 200
        [''data: {"type":"content_block_delta","delta":{"type":"text_delta","text":"Hel"}}\<newline>'',
         ''data: {"type":"content_block_delta","delta":{"type":"text_delta","text":"lo"}}\<newline>'',
         ''data: [DONE]\<newline>''] StreamEnd))
     ''hi'' fresh_panel =
   (\<lparr>messages = [\<lparr>role = User, content = ''hi''\<rparr>, \<lparr>role = Assistant, content = ''Hello''\<rparr>,
                 \<lparr>role = Assistant, content = ''Hello''\<rparr>],
     orgId = Some (JStr ''org-1''), conversationId = Some (JStr ''conv-1'')\<rparr>,
    [UserMessage ''hi'', Thinking, Status ''Getting organization...'',
     Status ''Starting conversation...'', StartAssistantMessage,
     Chunk (Some (JStr ''Hel'')), Chunk (Some (JStr ''lo'')), Done, Done],
    [GetOrganizations, CreateConversation ''org-1'', Completion ''org-1'' ''conv-1'' ''hi''])\<close>
  by code_simp

text \<open>
  C3 (a terminator line gives one \<open>done\<close> and nothing after it is interpreted, in the
  same chunk or in later ones). The program run on a terminator line followed, in a
  later chunk, by a data line and another terminator: the \<open>return\<close> at the terminator
  leaves only the handler of the chunk at hand, so the later lines are interpreted and
  call \<open>onChunk\<close> and \<open>onDone\<close> again. Within one chunk the lines after the terminator
  are skipped (\<open>process_lines_done\<close>).
\<close>

theorem C3_lines_after_done:
  \<open>feed sample_parse []
     [''data: [DONE]\<newline>'', ''data: {"completion":"Hi"}\<newline>data: [DONE]\<newline>'']
     = [OnDone, OnChunk (Some (JStr ''Hi'')), OnDone] \<and>
   feed sample_parse []
     [''data: [DONE]\<newline>data: {"completion":"Hi"}\<newline>data: [DONE]\<newline>'']
     = [OnDone]\<close>
  by code_simp

text \<open>
  C2 (every way of cutting a body into chunks gives the events of the whole body). The
  program run on one body, whole and cut after its first line: the callbacks differ,
  because lines after a terminator are skipped only within the terminator's own chunk.
  For bodies in which no complete line follows a terminator line the cut does not
  matter (\<open>chunk_boundary_independence\<close>).
\<close>

theorem C2_chunking_changes_events:
  \<open>concat [''data: [DONE]\<newline>'', ''data: {"completion":"Hi"}\<newline>'']
     = ''data: [DONE]\<newline>data: {"completion":"Hi"}\<newline>'' \<and>
   stream_callbacks sample_parse
     (StreamResponse 200 [''data: [DONE]\<newline>data: {"completion":"Hi"}\<newline>''] StreamEnd)
     = [OnDone, OnDone] \<and>
   stream_callbacks sample_parse
     (StreamResponse 200 [''data: [DONE]\<newline>'', ''data: {"completion":"Hi"}\<newline>''] StreamEnd)
     = [OnDone, OnChunk (Some (JStr ''Hi'')), OnDone]\<close>
  by code_simp

text \<open>
  C8 (a failure of the streaming exchange posts an \<open>error\<close> and appends no assistant
  message). The program run on a stream that fails after its terminator line: \<open>onDone\<close>
  has pushed the assistant message before \<open>onError\<close> posts the error, so an invocation
  with a stream failure ends with an assistant message in the history. And on a status
  of 400 or more whose error body fails, no handler is registered for the failure,
  unlike on the other path, and no \<open>error\<close> is posted. For the other failures
  \<open>clean_failure_keeps_history\<close> gives one \<open>error\<close>, no \<open>done\<close> and an unchanged history.
\<close>

theorem C8_failure_after_done:
  \<open>handleUserMessage sample_parse (Some ''sk'')
     (answers (StreamResponse 200 [''data: {"completion":"Hi"}\<newline>'', ''data: [DONE]\<newline>'']
        (StreamFail ''aborted'')))
     ''hi'' ready_panel =
   (\<lparr>messages = [\<lparr>role = User, content = ''hi''\<rparr>, \<lparr>role = Assistant, content = ''Hi''\<rparr>],
     orgId = Some (JStr ''org-1''), conversationId = Some (JStr ''conv-1'')\<rparr>,
    [UserMessage ''hi'', Thinking, StartAssistantMessage, Chunk (Some (JStr ''Hi'')), Done,
     Error ''Error: aborted''],
    [Completion ''org-1'' ''conv-1'' ''hi'']) \<and>
   handleUserMessage sample_parse (Some ''sk'')
     (answers (StreamResponse 500 [''busy''] (StreamFail ''aborted''))) ''hi'' ready_panel =
   (\<lparr>messages = [\<lparr>role = User, content = ''hi''\<rparr>],
     orgId = Some (JStr ''org-1''), conversationId = Some (JStr ''conv-1'')\<rparr>,
    [UserMessage ''hi'', Thinking, StartAssistantMessage],
    [Completion ''org-1'' ''conv-1'' ''hi''])\<close>
  by code_simp

end
